theory Spec2Isabelle
  imports Complex_Main "HOL-Library.Sublist" "HOL-Library.AList"
begin

section \<open>Python values, exceptions and effects\<close>

text \<open>
  The script \<^verbatim>\<open>run_imagecap_finetuning.py\<close> is glue around library calls. Its own
  logic is embedded here function by function. Every library call is a parameter (a field
  of an environment record, or a function argument) returning either the exception it
  raises or its value; every \<^verbatim>\<open>raise\<close> of the script is an \<open>Inl\<close>.
\<close>

datatype exn =
    ValueError string
  | KeyError string
  | AttributeError string
  | IndexError
  | StopIteration
  | ConnectionError
  | Timeout
  | HTTPError
  | InvalidURL
  | UnidentifiedImageError
  | OSError
  | RuntimeError string

text \<open>
  \<^verbatim>\<open>except (requests.RequestException, IOError)\<close>: the subclasses of
  \<^verbatim>\<open>requests.RequestException\<close>, and those of \<^verbatim>\<open>IOError\<close> (an alias of
  \<^verbatim>\<open>OSError\<close>, of which \<^verbatim>\<open>RequestException\<close> and PIL's
  \<^verbatim>\<open>UnidentifiedImageError\<close> are subclasses).
\<close>

fun is_RequestException :: "exn \<Rightarrow> bool" where
  "is_RequestException ConnectionError = True"
| "is_RequestException Timeout = True"
| "is_RequestException HTTPError = True"
| "is_RequestException InvalidURL = True"
| "is_RequestException _ = False"

fun is_IOError :: "exn \<Rightarrow> bool" where
  "is_IOError UnidentifiedImageError = True"
| "is_IOError OSError = True"
| "is_IOError e = is_RequestException e"

datatype level = INFO | WARNING | ERROR

datatype auto_class = AutoModelForCausalLM | AutoModelForVision2Seq

text \<open>The value of an attribute of an argument record, as a library call receives it.\<close>

datatype attr_value =
    StrAttr "string option"
  | IntAttr "int option"
  | BoolAttr bool

text \<open>
  What a run does besides computing: the calls of the logger and the calls that leave the
  process, in the order they happen.
\<close>

datatype event =
    Log level string
  | HttpGet string int
  | LoadDataset attr_value attr_value "string option"
  | TrainTestSplit
  | ConfigFromPretrained "string option"
  | ImageProcessorFromPretrained "string option"
  | TokenizerFromPretrained "string option"
  | ModelFromPretrained auto_class "string option"
  | RunTrainer

type_synonym 'a result = "event list \<times> (exn + 'a)"

definition ret :: "'a \<Rightarrow> 'a result" where
  "ret x = ([], Inr x)"

definition raise :: "exn \<Rightarrow> 'a result" where
  "raise e = ([], Inl e)"

definition emit :: "event \<Rightarrow> unit result" where
  "emit ev = ([ev], Inr ())"

definition lift :: "exn + 'a \<Rightarrow> 'a result" where
  "lift r = ([], r)"

text \<open>Sequencing of two statements: an exception of the first skips the second.\<close>

definition then_do :: "'a result \<Rightarrow> ('a \<Rightarrow> 'b result) \<Rightarrow> 'b result" where
  "then_do m f =
     (case m of
        (es, Inl e) \<Rightarrow> (es, Inl e)
      | (es, Inr x) \<Rightarrow> (case f x of (es', r) \<Rightarrow> (es @ es', r)))"

text \<open>\<^verbatim>\<open>str(x)\<close> inside an f-string, for a value that may be \<^verbatim>\<open>None\<close>.\<close>

fun str_opt :: "string option \<Rightarrow> string" where
  "str_opt None = ''None''"
| "str_opt (Some s) = s"

text \<open>Truthiness of an optional string: \<^verbatim>\<open>None\<close> and \<^verbatim>\<open>""\<close> are false.\<close>

fun truthy :: "string option \<Rightarrow> bool" where
  "truthy None = False"
| "truthy (Some s) = (s \<noteq> [])"

text \<open>\<^verbatim>\<open>a if a else b\<close> on optional strings.\<close>

definition or_else :: "string option \<Rightarrow> string option \<Rightarrow> string option" where
  "or_else a b = (if truthy a then a else b)"

text \<open>Decimal rendering of a natural number in an f-string.\<close>

definition digit_char :: "nat \<Rightarrow> char" where
  "digit_char d = ''0123456789'' ! d"

function str_nat :: "nat \<Rightarrow> string" where
  "str_nat n = (if n < 10 then [digit_char n] else str_nat (n div 10) @ [digit_char (n mod 10)])"
  by pat_completeness auto
termination
  by (relation "measure id") auto

text \<open>Python's \<^verbatim>\<open>sub in s\<close> on strings: \<open>sub\<close> occurs contiguously in \<open>s\<close>.\<close>

fun str_in :: "string \<Rightarrow> string \<Rightarrow> bool" where
  "str_in sub [] = (sub = [])"
| "str_in sub (c # cs) = (prefix sub (c # cs) \<or> str_in sub cs)"

section \<open>Model Dispatcher: \<^verbatim>\<open>load_model\<close>\<close>

record config =
  architectures :: "string list option"

text \<open>
  The dict literal \<^verbatim>\<open>model_class_mapping\<close>, in its insertion order, which is the order
  \<^verbatim>\<open>.items()\<close> iterates in.
\<close>

definition model_class_mapping :: "(string \<times> auto_class) list" where
  "model_class_mapping =
     [(''GitForCausalLM'', AutoModelForCausalLM),
      (''BlipForConditionalGeneration'', AutoModelForVision2Seq),
      (''VisionEncoderDecoderModel'', AutoModelForVision2Seq)]"

fun class_name :: "auto_class \<Rightarrow> string" where
  "class_name AutoModelForCausalLM = ''AutoModelForCausalLM''"
| "class_name AutoModelForVision2Seq = ''AutoModelForVision2Seq''"

text \<open>
  The \<^verbatim>\<open>for arch_name, auto_class in model_class_mapping.items()\<close> loop with its
  \<^verbatim>\<open>break\<close>: the class of the first entry whose name occurs in the architecture,
  \<open>None\<close> when the loop ends without a match.
\<close>

fun find_model_class :: "(string \<times> auto_class) list \<Rightarrow> string \<Rightarrow> auto_class option" where
  "find_model_class [] architecture = None"
| "find_model_class ((arch_name, cls) # rest) architecture =
     (if str_in arch_name architecture then Some cls else find_model_class rest architecture)"

text \<open>
  \<^verbatim>\<open>config.architectures[0] if config.architectures else None\<close>: an absent or empty
  list gives \<^verbatim>\<open>None\<close>.
\<close>

fun first_architecture :: "string list option \<Rightarrow> string option" where
  "first_architecture None = None"
| "first_architecture (Some []) = None"
| "first_architecture (Some (a # as)) = Some a"

text \<open>
  \<^verbatim>\<open>load_model(checkpoint, config)\<close>. The parameter \<open>from_pretrained\<close> is the library's
  \<^verbatim>\<open>model_class.from_pretrained(checkpoint)\<close>. The result is \<open>Inr None\<close> for
  \<^verbatim>\<open>return None\<close> and \<open>Inr (Some model)\<close> for \<^verbatim>\<open>return model\<close>.
\<close>

definition load_model ::
  "(auto_class \<Rightarrow> string option \<Rightarrow> exn + 'model) \<Rightarrow> string option \<Rightarrow> 'c config_scheme
   \<Rightarrow> 'model option result" where
  "load_model from_pretrained checkpoint cfg =
     (let architecture = first_architecture (architectures cfg) in
      if \<not> truthy architecture then
        raise (ValueError (''No architecture found in config for '' @ str_opt checkpoint))
      else
        (case find_model_class model_class_mapping (str_opt architecture) of
           None \<Rightarrow>
             then_do (emit (Log WARNING (''Unknown architecture '' @ str_opt architecture @ ''.'')))
               (\<lambda>_. ret None)
         | Some model_class \<Rightarrow>
             then_do (emit (ModelFromPretrained model_class checkpoint)) (\<lambda>_.
             then_do (lift (from_pretrained model_class checkpoint)) (\<lambda>model.
             then_do (emit (Log INFO (''Loaded model with architecture '' @ str_opt architecture
                                      @ '' using '' @ class_name model_class))) (\<lambda>_.
             ret (Some model))))))"

section \<open>Argument schema\<close>

text \<open>The fields of the three dataclasses that the script reads.\<close>

record model_arguments =
  model_name_or_path :: "string option"
  config_name_or_path :: "string option"
  tokenizer_name :: "string option"
  cache_dir :: "string option"
  use_fast_tokenizer :: bool
  overwrite_vocabulary :: bool

record data_training_arguments =
  dataset_name :: "string option"
  dataset_config_name :: "string option"
  max_train_samples :: "int option"
  max_eval_samples :: "int option"
  image_column_name :: "string option"
  text_column_name :: "string option"
  preprocessing_only :: bool
  train_split_name :: "string option"
  eval_split_name :: "string option"
  requests_timeout :: int

record training_arguments =
  do_train :: bool
  do_eval :: bool

text \<open>
  Attribute access by name on a \<^verbatim>\<open>DataTrainingArguments\<close> instance. The instance has
  exactly the attributes the dataclass declares, in the order of declaration; reading any
  other name raises \<^verbatim>\<open>AttributeError\<close>.
\<close>

definition data_args_attributes :: "'a data_training_arguments_scheme \<Rightarrow> (string \<times> attr_value) list" where
  "data_args_attributes d =
     [(''dataset_name'', StrAttr (dataset_name d)),
      (''dataset_config_name'', StrAttr (dataset_config_name d)),
      (''max_train_samples'', IntAttr (max_train_samples d)),
      (''max_eval_samples'', IntAttr (max_eval_samples d)),
      (''image_column_name'', StrAttr (image_column_name d)),
      (''text_column_name'', StrAttr (text_column_name d)),
      (''preprocessing_only'', BoolAttr (preprocessing_only d)),
      (''train_split_name'', StrAttr (train_split_name d)),
      (''eval_split_name'', StrAttr (eval_split_name d)),
      (''requests_timeout'', IntAttr (Some (requests_timeout d)))]"

definition getattr_data_args :: "'a data_training_arguments_scheme \<Rightarrow> string \<Rightarrow> exn + attr_value" where
  "getattr_data_args d name =
     (case map_of (data_args_attributes d) name of
        None \<Rightarrow> Inl (AttributeError name)
      | Some v \<Rightarrow> Inr v)"

section \<open>Dataset Preparation: \<^verbatim>\<open>prepare_dataset\<close> and \<^verbatim>\<open>process_dataset\<close>\<close>

text \<open>
  A cell of a raw row: a decoded \<^verbatim>\<open>PIL.Image.Image\<close> or a string. A row is a dict
  from column names to cells.
\<close>

datatype 'img cell = PILImage 'img | Text string

type_synonym 'img row = "(string \<times> 'img cell) list"

record 'img dataset =
  column_names :: "string list"
  rows :: "'img row list"

text \<open>The dict returned by \<^verbatim>\<open>prepare_dataset\<close>: it always has these three keys.\<close>

record 'px encoded_sample =
  pixel_values :: "'px option"
  input_ids :: "int list option"
  attention_mask :: "int list option"

definition null_sample :: "'px encoded_sample" where
  "null_sample = \<lparr>pixel_values = None, input_ids = None, attention_mask = None\<rparr>"

text \<open>
  The loaded tokenizer: its call on a text (token ids and attention mask), its
  \<^verbatim>\<open>pad_token_id\<close> and its \<^verbatim>\<open>len\<close>.
\<close>

record tokenizer =
  tokenize :: "string \<Rightarrow> exn + (int list \<times> int list)"
  pad_token_id :: "int option"
  vocab_len :: nat

text \<open>
  The library calls of \<^verbatim>\<open>prepare_dataset\<close>: \<^verbatim>\<open>requests.get(url, timeout=t)\<close>,
  \<^verbatim>\<open>response.raise_for_status()\<close>, \<^verbatim>\<open>Image.open(BytesIO(response.content))\<close>
  (whose result the script compares with \<^verbatim>\<open>None\<close>), and \<^verbatim>\<open>str\<close> of a decoded image.
\<close>

record ('img, 'resp) http_env =
  requests_get :: "string \<Rightarrow> int \<Rightarrow> exn + 'resp"
  raise_for_status :: "'resp \<Rightarrow> exn + unit"
  image_open :: "'resp \<Rightarrow> exn + 'img option"
  image_str :: "'img \<Rightarrow> string"

text \<open>\<^verbatim>\<open>sample[name]\<close>: a missing key raises \<^verbatim>\<open>KeyError\<close>.\<close>

definition getitem :: "(string \<times> 'v) list \<Rightarrow> string option \<Rightarrow> exn + 'v" where
  "getitem d key =
     (case key of
        None \<Rightarrow> Inl (KeyError ''None'')
      | Some k \<Rightarrow> (case map_of d k of None \<Rightarrow> Inl (KeyError k) | Some v \<Rightarrow> Inr v))"

fun str_cell :: "('img \<Rightarrow> string) \<Rightarrow> 'img cell \<Rightarrow> string" where
  "str_cell f (Text s) = s"
| "str_cell f (PILImage i) = f i"

text \<open>
  The two statements \<^verbatim>\<open>image_input = image_processor(img)\<close> and
  \<^verbatim>\<open>text_input = tokenizer(text)\<close>, and the dict built from them. They occur twice in
  \<^verbatim>\<open>prepare_dataset\<close>, once in each branch.
\<close>

definition encode ::
  "('img \<Rightarrow> exn + 'px) \<Rightarrow> tokenizer \<Rightarrow> 'img \<Rightarrow> string \<Rightarrow> 'px encoded_sample result" where
  "encode image_processor tok img text =
     then_do (lift (image_processor img)) (\<lambda>image_input.
     then_do (lift (tokenize tok text)) (\<lambda>text_input.
     ret \<lparr>pixel_values = Some image_input,
          input_ids = Some (fst text_input),
          attention_mask = Some (snd text_input)\<rparr>))"

text \<open>The body of the \<^verbatim>\<open>try\<close> block, for the URL \<open>url\<close>.\<close>

definition fetch_and_encode ::
  "('img, 'resp, 'e) http_env_scheme \<Rightarrow> int \<Rightarrow> ('img \<Rightarrow> exn + 'px) \<Rightarrow> tokenizer
   \<Rightarrow> string \<Rightarrow> string \<Rightarrow> 'px encoded_sample result" where
  "fetch_and_encode env timeout image_processor tok url text =
     then_do (emit (HttpGet url timeout)) (\<lambda>_.
     then_do (lift (requests_get env url timeout)) (\<lambda>response.
     then_do (lift (raise_for_status env response)) (\<lambda>_.
     then_do (lift (image_open env response)) (\<lambda>img.
       (case img of
          None \<Rightarrow>
            then_do (emit (Log WARNING (''Invalid image from URL '' @ url @ '', skipping sample.'')))
              (\<lambda>_. ret null_sample)
        | Some im \<Rightarrow> encode image_processor tok im text)))))"

text \<open>
  \<^verbatim>\<open>try: ... except (requests.RequestException, IOError)\<close>: a caught exception becomes
  one warning and the all-null sample; any other exception propagates.
\<close>

definition except_fetch_errors :: "string \<Rightarrow> 'px encoded_sample result \<Rightarrow> 'px encoded_sample result" where
  "except_fetch_errors url body =
     (case body of
        (es, Inl e) \<Rightarrow>
          (if is_RequestException e \<or> is_IOError e
           then (es @ [Log WARNING (''Skipping sample due to error fetching URL '' @ url)],
                 Inr null_sample)
           else (es, Inl e))
      | (es, Inr s) \<Rightarrow> (es, Inr s))"

definition prepare_dataset ::
  "('img, 'resp, 'e) http_env_scheme \<Rightarrow> 'a data_training_arguments_scheme
   \<Rightarrow> ('img \<Rightarrow> exn + 'px) \<Rightarrow> tokenizer \<Rightarrow> 'img row \<Rightarrow> 'px encoded_sample result" where
  "prepare_dataset env data_args image_processor tok sample =
     then_do (lift (getitem sample (image_column_name data_args))) (\<lambda>image.
     then_do (lift (getitem sample (text_column_name data_args))) (\<lambda>text_cell.
       (let text = str_cell (image_str env) text_cell in
        case image of
          PILImage img \<Rightarrow> encode image_processor tok img text
        | Text url \<Rightarrow>
            except_fetch_errors url
              (fetch_and_encode env (requests_timeout data_args) image_processor tok url text))))"

text \<open>\<^verbatim>\<open>dataset.map(f)\<close>: \<open>f\<close> on every row in order; the first exception ends the map.\<close>

fun map_rows :: "('a \<Rightarrow> 'b result) \<Rightarrow> 'a list \<Rightarrow> 'b list result" where
  "map_rows f [] = ret []"
| "map_rows f (x # xs) =
     then_do (f x) (\<lambda>y. then_do (map_rows f xs) (\<lambda>ys. ret (y # ys)))"

text \<open>The predicate of \<^verbatim>\<open>PIL_dataset.filter(lambda x: ...)\<close>.\<close>

definition not_null :: "'px encoded_sample \<Rightarrow> bool" where
  "not_null x = (pixel_values x \<noteq> None \<and> input_ids x \<noteq> None \<and> attention_mask x \<noteq> None)"

definition filter_dataset :: "'px encoded_sample list \<Rightarrow> 'px encoded_sample list" where
  "filter_dataset ds = filter not_null ds"

definition process_dataset ::
  "('img, 'resp, 'e) http_env_scheme \<Rightarrow> 'a data_training_arguments_scheme
   \<Rightarrow> ('img \<Rightarrow> exn + 'px) \<Rightarrow> tokenizer \<Rightarrow> 'img dataset \<Rightarrow> 'px encoded_sample list result" where
  "process_dataset env data_args image_processor tok dataset =
     then_do (map_rows (prepare_dataset env data_args image_processor tok) (rows dataset))
       (\<lambda>PIL_dataset. ret (filter_dataset PIL_dataset))"

section \<open>Batch Collator: \<^verbatim>\<open>DataCollatorWithPadding.__call__\<close>\<close>

text \<open>
  A feature is a dict from key to value; a value is \<^verbatim>\<open>None\<close>, a list of token ids
  or a pixel array. The keys keep their insertion order, which \<^verbatim>\<open>f.keys()\<close> prints.
\<close>

datatype 'px fvalue = NoneValue | IntList "int list" | Pixels 'px

type_synonym 'px feature = "(string \<times> 'px fvalue) list"

record 't batch =
  batch_input_ids :: "int list list"
  batch_attention_mask :: "int list list option"
  batch_pixel_values :: 't
  batch_labels :: "int list list"

text \<open>
  The collator object. Its \<^verbatim>\<open>image_processor\<close> attribute is stored by
  \<^verbatim>\<open>__init__\<close> and never read by \<^verbatim>\<open>__call__\<close>.
\<close>

record data_collator =
  collator_tokenizer :: tokenizer
  forward_attention_mask :: bool

text \<open>
  \<^verbatim>\<open>f.keys()\<close> inside an f-string, for keys that \<^verbatim>\<open>repr\<close> prints between single
  quotes unchanged (no quote, backslash or control character in them).
\<close>

fun join_strings :: "string \<Rightarrow> string list \<Rightarrow> string" where
  "join_strings sep [] = []"
| "join_strings sep [x] = x"
| "join_strings sep (x # y # ys) = x @ sep @ join_strings sep (y # ys)"

definition str_keys :: "(string \<times> 'v) list \<Rightarrow> string" where
  "str_keys f =
     ''dict_keys(['' @ join_strings '', '' (map (\<lambda>k. [CHR 0x27] @ k @ [CHR 0x27]) (map fst f)) @ ''])''"

text \<open>
  The validation loop \<^verbatim>\<open>for i, f in enumerate(features)\<close>: \<open>i\<close> is the index of the
  next feature, \<open>e\<close> the counter so far. It logs one error for each feature without the
  key \<^verbatim>\<open>input_ids\<close> and returns the final counter.
\<close>

fun count_missing :: "nat \<Rightarrow> nat \<Rightarrow> 'px feature list \<Rightarrow> nat result" where
  "count_missing i e [] = ret e"
| "count_missing i e (f # fs) =
     (if map_of f ''input_ids'' = None
      then then_do (emit (Log ERROR (''Missing input_ids in feature '' @ str_nat i @ '': '' @ str_keys f)))
             (\<lambda>_. count_missing (Suc i) (Suc e) fs)
      else count_missing (Suc i) e fs)"

text \<open>
  Modelled from the spec: the library call \<^verbatim>\<open>tokenizer.pad({'input_ids': ...},
  return_tensors="pt", return_attention_mask=..., padding=True)\<close>, which is not code of the
  script. Section 4.4 of the specification: all token-id sequences are right-padded to the
  longest sequence of the batch, and the attention mask marks real (1) against pad (0)
  positions. The call fails when the tokenizer has no pad token or a value is not a
  token-id list.
\<close>

fun int_list_of :: "'px fvalue \<Rightarrow> int list option" where
  "int_list_of (IntList xs) = Some xs"
| "int_list_of _ = None"

definition longest :: "'a list list \<Rightarrow> nat" where
  "longest xss = foldr (\<lambda>xs m. max (length xs) m) xss 0"

definition pad_right :: "nat \<Rightarrow> int \<Rightarrow> int list \<Rightarrow> int list" where
  "pad_right w p xs = xs @ replicate (w - length xs) p"

definition mask_right :: "nat \<Rightarrow> int list \<Rightarrow> int list" where
  "mask_right w xs = replicate (length xs) 1 @ replicate (w - length xs) 0"

definition tokenizer_pad ::
  "tokenizer \<Rightarrow> bool \<Rightarrow> 'px fvalue list \<Rightarrow> exn + (int list list \<times> int list list option)" where
  "tokenizer_pad tok return_attention_mask vals =
     (case pad_token_id tok of
        None \<Rightarrow> Inl (ValueError ''Asking to pad but the tokenizer does not have a padding token.'')
      | Some p \<Rightarrow>
          (case those (map int_list_of vals) of
             None \<Rightarrow> Inl (ValueError ''Unable to create tensor.'')
           | Some ids \<Rightarrow>
               Inr (map (pad_right (longest ids) p) ids,
                    if return_attention_mask then Some (map (mask_right (longest ids)) ids)
                    else None)))"

text \<open>
  \<^verbatim>\<open>labels = batch["input_ids"].clone(); labels[labels == pad_token_id] = -100\<close>:
  every entry equal to the pad token id becomes -100.
\<close>

definition mask_labels :: "int option \<Rightarrow> int list list \<Rightarrow> int list list" where
  "mask_labels pad ids = map (map (\<lambda>t. if Some t = pad then - 100 else t)) ids"

text \<open>
  \<^verbatim>\<open>__call__\<close>. The parameters \<open>to_tensor\<close> and \<open>stack\<close> are the library's
  \<^verbatim>\<open>torch.tensor(v).squeeze(0)\<close> and \<^verbatim>\<open>torch.stack\<close>.
\<close>

definition DataCollatorWithPadding_call ::
  "('px fvalue \<Rightarrow> exn + 't) \<Rightarrow> ('t list \<Rightarrow> exn + 't) \<Rightarrow> 'c data_collator_scheme
   \<Rightarrow> 'px feature list \<Rightarrow> 't batch result" where
  "DataCollatorWithPadding_call to_tensor stack self features =
     then_do (count_missing 0 0 features) (\<lambda>e.
     if e > 0 then
       raise (ValueError (''Found '' @ str_nat e @ ''/'' @ str_nat (length features)
                          @ '' features without input_ids.''))
     else
       then_do (map_rows (\<lambda>f. then_do (lift (getitem f (Some ''pixel_values'')))
                                 (\<lambda>v. lift (to_tensor v))) features) (\<lambda>tensors.
       then_do (lift (stack tensors)) (\<lambda>pixels.
       then_do (map_rows (\<lambda>f. lift (getitem f (Some ''input_ids''))) features) (\<lambda>ids.
       then_do (lift (tokenizer_pad (collator_tokenizer self) (forward_attention_mask self) ids))
         (\<lambda>padded.
       ret \<lparr>batch_input_ids = fst padded,
            batch_attention_mask = snd padded,
            batch_pixel_values = pixels,
            batch_labels = mask_labels (pad_token_id (collator_tokenizer self)) (fst padded)\<rparr>)))))"

section \<open>The run: \<^verbatim>\<open>main\<close> from step 3\<close>

text \<open>
  The library calls of \<^verbatim>\<open>main\<close>. \<^verbatim>\<open>load_dataset\<close> receives whatever the two
  attribute reads give it, then the split name and the cache directory.
  \<open>finetune\<close> stands for lines 349 to 385 (vocabulary resize, saving, trainer construction,
  training and evaluation), which only call the libraries.
\<close>

record ('img, 'resp, 'px, 'model) main_env = "('img, 'resp) http_env" +
  load_dataset :: "attr_value \<Rightarrow> attr_value \<Rightarrow> string option \<Rightarrow> string option \<Rightarrow> exn + 'img dataset"
  train_test_split :: "'img dataset \<Rightarrow> rat \<Rightarrow> exn + ('img dataset \<times> 'img dataset)"
  AutoConfig_from_pretrained :: "string option \<Rightarrow> string option \<Rightarrow> exn + config"
  AutoImageProcessor_from_pretrained :: "string option \<Rightarrow> string option \<Rightarrow> exn + ('img \<Rightarrow> exn + 'px)"
  AutoTokenizer_from_pretrained :: "string option \<Rightarrow> string option \<Rightarrow> bool \<Rightarrow> exn + tokenizer"
  model_from_pretrained :: "auto_class \<Rightarrow> string option \<Rightarrow> exn + 'model"
  cache_files_str :: "(string \<times> 'px encoded_sample list) list \<Rightarrow> string"
  finetune :: "'model option \<Rightarrow> (string \<times> 'px encoded_sample list) list \<Rightarrow> exn + unit"

type_synonym 'img dataset_dict = "(string \<times> 'img dataset) list"

text \<open>
  Step 3, lines 236 to 254. A \<^verbatim>\<open>DatasetDict\<close> keeps insertion order; assigning to a
  key replaces its value in place or appends the key (\<open>AList.update\<close>). The literal
  \<^verbatim>\<open>0.15\<close> is the rational \<open>15 / 100\<close>.
\<close>

definition load_raw_datasets ::
  "('img, 'resp, 'px, 'model, 'e) main_env_scheme \<Rightarrow> 'm model_arguments_scheme
   \<Rightarrow> 'd data_training_arguments_scheme \<Rightarrow> 't training_arguments_scheme
   \<Rightarrow> 'img dataset_dict result" where
  "load_raw_datasets env model_args data_args training_args =
     then_do
       (if do_train training_args then
          then_do (emit (LoadDataset (StrAttr (dataset_name data_args))
                           (StrAttr (dataset_config_name data_args))
                           (train_split_name data_args))) (\<lambda>_.
          then_do (lift (load_dataset env (StrAttr (dataset_name data_args))
                           (StrAttr (dataset_config_name data_args))
                           (train_split_name data_args) (cache_dir model_args))) (\<lambda>d.
          ret (AList.update ''train'' d [])))
        else ret [])
       (\<lambda>raw_datasets.
          if do_eval training_args \<and> eval_split_name data_args \<noteq> None then
            then_do (lift (getattr_data_args data_args ''dataset_name_or_path'')) (\<lambda>a.
            then_do (lift (getattr_data_args data_args ''dataset_subset_name'')) (\<lambda>b.
            then_do (emit (LoadDataset a b (eval_split_name data_args))) (\<lambda>_.
            then_do (lift (load_dataset env a b (eval_split_name data_args) (cache_dir model_args)))
              (\<lambda>d.
            ret (AList.update ''validation'' d raw_datasets)))))
          else if \<not> truthy (eval_split_name data_args) then
            then_do (lift (getitem raw_datasets (Some ''train''))) (\<lambda>train.
            then_do (emit TrainTestSplit) (\<lambda>_.
            then_do (lift (train_test_split env train (15 / 100))) (\<lambda>new_dataset.
            ret (AList.update ''validation'' (snd new_dataset)
                   (AList.update ''train'' (fst new_dataset) raw_datasets)))))
          else ret raw_datasets)"

text \<open>
  Lines 256 to 259. \<^verbatim>\<open>next(iter(raw_datasets.values()))\<close> is the first dataset
  inserted; on an empty dict it raises \<^verbatim>\<open>StopIteration\<close>.
\<close>

fun first_value :: "(string \<times> 'v) list \<Rightarrow> exn + 'v" where
  "first_value [] = Inl StopIteration"
| "first_value ((k, v) # rest) = Inr v"

fun not_in_columns :: "string option \<Rightarrow> string list \<Rightarrow> bool" where
  "not_in_columns None cols = True"
| "not_in_columns (Some c) cols = (c \<notin> set cols)"

definition check_columns ::
  "'d data_training_arguments_scheme \<Rightarrow> 'img dataset_dict \<Rightarrow> unit result" where
  "check_columns data_args raw_datasets =
     then_do (lift (first_value raw_datasets)) (\<lambda>d.
     if not_in_columns (image_column_name data_args) (column_names d) then
       raise (ValueError (''Column '' @ str_opt (image_column_name data_args)
                          @ '' not found in dataset.''))
     else
       then_do (lift (first_value raw_datasets)) (\<lambda>d'.
       if not_in_columns (text_column_name data_args) (column_names d') then
         raise (ValueError (''Column '' @ str_opt (text_column_name data_args)
                            @ '' not found in dataset.''))
       else ret ()))"

text \<open>Step 4, lines 263 to 277.\<close>

definition load_config_and_processors ::
  "('img, 'resp, 'px, 'model, 'e) main_env_scheme \<Rightarrow> 'm model_arguments_scheme
   \<Rightarrow> (config \<times> ('img \<Rightarrow> exn + 'px) \<times> tokenizer) result" where
  "load_config_and_processors env model_args =
     (let config_path = or_else (config_name_or_path model_args) (model_name_or_path model_args);
          processor_path = or_else (model_name_or_path model_args) (config_name_or_path model_args);
          tokenizer_path = or_else (tokenizer_name model_args) (model_name_or_path model_args)
      in
      then_do (emit (ConfigFromPretrained config_path)) (\<lambda>_.
      then_do (lift (AutoConfig_from_pretrained env config_path (cache_dir model_args))) (\<lambda>cfg.
      then_do (emit (ImageProcessorFromPretrained processor_path)) (\<lambda>_.
      then_do (lift (AutoImageProcessor_from_pretrained env processor_path (cache_dir model_args)))
        (\<lambda>image_processor.
      then_do (emit (TokenizerFromPretrained tokenizer_path)) (\<lambda>_.
      then_do (lift (AutoTokenizer_from_pretrained env tokenizer_path (cache_dir model_args)
                       (use_fast_tokenizer model_args))) (\<lambda>tok.
      ret (cfg, image_processor, tok))))))))"

text \<open>
  Step 5, lines 281 to 285. \<^verbatim>\<open>dataset.select(range(n))\<close> keeps the first \<open>n\<close> rows
  and raises \<^verbatim>\<open>IndexError\<close> when \<open>n\<close> exceeds the number of rows; a negative \<open>n\<close>
  gives the empty range.
\<close>

definition select_range :: "int \<Rightarrow> 'img dataset \<Rightarrow> exn + 'img dataset" where
  "select_range n d =
     (if n \<le> int (length (rows d)) then Inr (d\<lparr>rows := take (nat n) (rows d)\<rparr>)
      else Inl IndexError)"

definition select_split :: "string \<Rightarrow> int option \<Rightarrow> 'img dataset_dict \<Rightarrow> 'img dataset_dict result" where
  "select_split name limit raw_datasets =
     (case limit of
        None \<Rightarrow> ret raw_datasets
      | Some n \<Rightarrow>
          then_do (lift (getitem raw_datasets (Some name))) (\<lambda>d.
          then_do (lift (select_range n d)) (\<lambda>d'.
          ret (AList.update name d' raw_datasets))))"

definition select_samples ::
  "'d data_training_arguments_scheme \<Rightarrow> 'img dataset_dict \<Rightarrow> 'img dataset_dict result" where
  "select_samples data_args raw_datasets =
     then_do (select_split ''train'' (max_train_samples data_args) raw_datasets)
       (select_split ''validation'' (max_eval_samples data_args))"

text \<open>
  Lines 318 to 338: \<^verbatim>\<open>remove_columns\<close> reads \<^verbatim>\<open>raw_datasets["train"]\<close>; then each
  requested split is processed.
\<close>

definition vectorize_split ::
  "('img, 'resp, 'e) http_env_scheme \<Rightarrow> 'd data_training_arguments_scheme
   \<Rightarrow> ('img \<Rightarrow> exn + 'px) \<Rightarrow> tokenizer \<Rightarrow> 'img dataset_dict \<Rightarrow> bool \<Rightarrow> string
   \<Rightarrow> (string \<times> 'px encoded_sample list) list \<Rightarrow> (string \<times> 'px encoded_sample list) list result" where
  "vectorize_split env data_args image_processor tok raw_datasets requested name vectorized =
     (if requested then
        then_do (lift (getitem raw_datasets (Some name))) (\<lambda>d.
        then_do (process_dataset env data_args image_processor tok d) (\<lambda>v.
        ret (AList.update name v vectorized)))
      else ret vectorized)"

definition vectorize_datasets ::
  "('img, 'resp, 'e) http_env_scheme \<Rightarrow> 'd data_training_arguments_scheme
   \<Rightarrow> 't training_arguments_scheme \<Rightarrow> ('img \<Rightarrow> exn + 'px) \<Rightarrow> tokenizer \<Rightarrow> 'img dataset_dict
   \<Rightarrow> (string \<times> 'px encoded_sample list) list result" where
  "vectorize_datasets env data_args training_args image_processor tok raw_datasets =
     then_do (lift (getitem raw_datasets (Some ''train''))) (\<lambda>train.
     then_do (vectorize_split env data_args image_processor tok raw_datasets
                (do_train training_args) ''train'' []) (\<lambda>vectorized.
     vectorize_split env data_args image_processor tok raw_datasets
       (do_eval training_args) ''validation'' vectorized))"

text \<open>
  Lines 339 to 348 and the rest: the early return of \<^verbatim>\<open>preprocessing_only\<close>,
  then \<^verbatim>\<open>load_model\<close>, whose exception no handler of \<^verbatim>\<open>main\<close> catches.
\<close>

definition load_and_train ::
  "('img, 'resp, 'px, 'model, 'e) main_env_scheme \<Rightarrow> 'm model_arguments_scheme
   \<Rightarrow> 'd data_training_arguments_scheme \<Rightarrow> 'c config_scheme
   \<Rightarrow> (string \<times> 'px encoded_sample list) list \<Rightarrow> unit result" where
  "load_and_train env model_args data_args cfg vectorized =
     (if preprocessing_only data_args then
        emit (Log INFO (''Data preprocessing finished. Files cached at ''
                        @ cache_files_str env vectorized @ ''.''))
      else
        then_do (load_model (model_from_pretrained env)
                   (or_else (model_name_or_path model_args) (config_name_or_path model_args)) cfg)
          (\<lambda>model.
        then_do (emit RunTrainer) (\<lambda>_.
        lift (finetune env model vectorized))))"

text \<open>Steps 3 to 6 of \<^verbatim>\<open>main\<close>, lines 236 to 338, in the order of the source.\<close>

definition preprocess ::
  "('img, 'resp, 'px, 'model, 'e) main_env_scheme \<Rightarrow> 'm model_arguments_scheme
   \<Rightarrow> 'd data_training_arguments_scheme \<Rightarrow> 't training_arguments_scheme
   \<Rightarrow> (config \<times> (string \<times> 'px encoded_sample list) list) result" where
  "preprocess env model_args data_args training_args =
     then_do (load_raw_datasets env model_args data_args training_args) (\<lambda>raw_datasets.
     then_do (check_columns data_args raw_datasets) (\<lambda>_.
     then_do (load_config_and_processors env model_args) (\<lambda>loaded.
     then_do (select_samples data_args raw_datasets) (\<lambda>raw_datasets'.
     then_do (vectorize_datasets env data_args training_args (fst (snd loaded)) (snd (snd loaded))
                raw_datasets') (\<lambda>vectorized.
     ret (fst loaded, vectorized))))))"

definition main ::
  "('img, 'resp, 'px, 'model, 'e) main_env_scheme \<Rightarrow> 'm model_arguments_scheme
   \<Rightarrow> 'd data_training_arguments_scheme \<Rightarrow> 't training_arguments_scheme \<Rightarrow> unit result" where
  "main env model_args data_args training_args =
     then_do (preprocess env model_args data_args training_args) (\<lambda>p.
     load_and_train env model_args data_args (fst p) (snd p))"

section \<open>Concrete inputs\<close>

text \<open>
  Small inputs on which the functions above are evaluated. Images, responses, pixel arrays
  and models are natural numbers here.
\<close>

definition demo_from_pretrained :: "auto_class \<Rightarrow> string option \<Rightarrow> exn + nat" where
  "demo_from_pretrained cls checkpoint =
     Inr (case cls of AutoModelForCausalLM \<Rightarrow> 1 | AutoModelForVision2Seq \<Rightarrow> 2)"

text \<open>A tokenizer with one token per character and pad token id 0.\<close>

definition demo_tokenize :: "string \<Rightarrow> exn + (int list \<times> int list)" where
  "demo_tokenize s = Inr (map (\<lambda>c. int (of_char c)) s, replicate (length s) 1)"

definition demo_tokenizer :: tokenizer where
  "demo_tokenizer = \<lparr>tokenize = demo_tokenize, pad_token_id = Some 0, vocab_len = 256\<rparr>"

definition demo_image_processor :: "nat \<Rightarrow> exn + nat" where
  "demo_image_processor img = Inr (img + 100)"

text \<open>
  A web with four URLs: one serves an image, one answers with an error status, one
  serves bytes that are no image, and every other host is unreachable.
\<close>

definition demo_get :: "string \<Rightarrow> int \<Rightarrow> exn + nat" where
  "demo_get url timeout =
     (if url = ''http://ok/cat.png'' then Inr 1
      else if url = ''http://ok/missing.png'' then Inr 2
      else if url = ''http://ok/page.html'' then Inr 3
      else Inl ConnectionError)"

definition demo_raise_for_status :: "nat \<Rightarrow> exn + unit" where
  "demo_raise_for_status response = (if response = 2 then Inl HTTPError else Inr ())"

definition demo_image_open :: "nat \<Rightarrow> exn + nat option" where
  "demo_image_open response =
     (if response = 3 then Inl UnidentifiedImageError else Inr (Some response))"

definition demo_image_str :: "nat \<Rightarrow> string" where
  "demo_image_str img = ''<PIL.Image.Image>''"

definition demo_rows :: "nat row list" where
  "demo_rows =
     [[(''image'', PILImage 7), (''text'', Text ''a dog'')],
      [(''image'', Text ''http://ok/cat.png''), (''text'', Text ''a cat'')],
      [(''image'', Text ''http://down/x.png''), (''text'', Text ''broken'')]]"

definition demo_dataset :: "nat dataset" where
  "demo_dataset = \<lparr>column_names = [''image'', ''text''], rows = demo_rows\<rparr>"

definition demo_load_dataset ::
  "attr_value \<Rightarrow> attr_value \<Rightarrow> string option \<Rightarrow> string option \<Rightarrow> exn + nat dataset" where
  "demo_load_dataset name config_name split cache = Inr demo_dataset"

definition demo_train_test_split :: "nat dataset \<Rightarrow> rat \<Rightarrow> exn + (nat dataset \<times> nat dataset)" where
  "demo_train_test_split d test_size =
     Inr (d\<lparr>rows := take 2 (rows d)\<rparr>, d\<lparr>rows := drop 2 (rows d)\<rparr>)"

definition demo_AutoConfig :: "config \<Rightarrow> string option \<Rightarrow> string option \<Rightarrow> exn + config" where
  "demo_AutoConfig cfg path cache = Inr cfg"

definition demo_AutoImageProcessor :: "string option \<Rightarrow> string option \<Rightarrow> exn + (nat \<Rightarrow> exn + nat)" where
  "demo_AutoImageProcessor path cache = Inr demo_image_processor"

definition demo_AutoTokenizer :: "string option \<Rightarrow> string option \<Rightarrow> bool \<Rightarrow> exn + tokenizer" where
  "demo_AutoTokenizer path cache use_fast = Inr demo_tokenizer"

definition demo_cache_files_str :: "(string \<times> nat encoded_sample list) list \<Rightarrow> string" where
  "demo_cache_files_str vectorized = ''{}''"

definition demo_finetune :: "nat option \<Rightarrow> (string \<times> nat encoded_sample list) list \<Rightarrow> exn + unit" where
  "demo_finetune model vectorized = Inr ()"

text \<open>The environment of a run whose checkpoint has the configuration \<open>cfg\<close>.\<close>

definition demo_env :: "config \<Rightarrow> (nat, nat, nat, nat) main_env" where
  "demo_env cfg =
     \<lparr>requests_get = demo_get,
      raise_for_status = demo_raise_for_status,
      image_open = demo_image_open,
      image_str = demo_image_str,
      load_dataset = demo_load_dataset,
      train_test_split = demo_train_test_split,
      AutoConfig_from_pretrained = demo_AutoConfig cfg,
      AutoImageProcessor_from_pretrained = demo_AutoImageProcessor,
      AutoTokenizer_from_pretrained = demo_AutoTokenizer,
      model_from_pretrained = demo_from_pretrained,
      cache_files_str = demo_cache_files_str,
      finetune = demo_finetune\<rparr>"

definition demo_model_args :: model_arguments where
  "demo_model_args =
     \<lparr>model_name_or_path = Some ''microsoft/git-base'',
      config_name_or_path = None,
      tokenizer_name = None,
      cache_dir = None,
      use_fast_tokenizer = True,
      overwrite_vocabulary = False\<rparr>"

text \<open>
  Data arguments with the given column names and evaluation split name, the other
  fields at their defaults where they have one.
\<close>

definition demo_data_args ::
  "string option \<Rightarrow> string option \<Rightarrow> string option \<Rightarrow> data_training_arguments" where
  "demo_data_args image_column text_column eval_split =
     \<lparr>dataset_name = Some ''captions'',
      dataset_config_name = None,
      max_train_samples = None,
      max_eval_samples = None,
      image_column_name = image_column,
      text_column_name = text_column,
      preprocessing_only = False,
      train_split_name = Some ''train'',
      eval_split_name = eval_split,
      requests_timeout = 1\<rparr>"

definition demo_training_args :: "bool \<Rightarrow> bool \<Rightarrow> training_arguments" where
  "demo_training_args train eval = \<lparr>do_train = train, do_eval = eval\<rparr>"

text \<open>Features, tensor operations and a collator for the demo tokenizer.\<close>

definition demo_to_tensor :: "nat fvalue \<Rightarrow> exn + nat list" where
  "demo_to_tensor v =
     (case v of Pixels p \<Rightarrow> Inr [p] | _ \<Rightarrow> Inl (RuntimeError ''Could not infer dtype''))"

definition demo_stack :: "nat list list \<Rightarrow> exn + nat list" where
  "demo_stack ts =
     (if ts = [] then Inl (RuntimeError ''stack expects a non-empty TensorList'')
      else Inr (concat ts))"

definition demo_collator :: data_collator where
  "demo_collator = \<lparr>collator_tokenizer = demo_tokenizer, forward_attention_mask = True\<rparr>"

definition demo_feature :: "nat \<Rightarrow> int list \<Rightarrow> nat feature" where
  "demo_feature p ids =
     [(''pixel_values'', Pixels p), (''input_ids'', IntList ids),
      (''attention_mask'', IntList (replicate (length ids) 1))]"

text \<open>Three samples of token-sequence lengths 3, 5 and 2, no token equal to the pad id.\<close>

definition demo_features :: "nat feature list" where
  "demo_features =
     [demo_feature 1 [11, 12, 13], demo_feature 2 [21, 22, 23, 24, 25], demo_feature 3 [31, 32]]"

text \<open>Two samples; the second token of the first one is the pad token id itself.\<close>

definition demo_features_pad_token :: "nat feature list" where
  "demo_features_pad_token = [demo_feature 1 [7, 0, 9], demo_feature 2 [5]]"

text \<open>Three features; the first and the last lack the key \<^verbatim>\<open>input_ids\<close>.\<close>

definition demo_features_malformed :: "nat feature list" where
  "demo_features_malformed =
     [[(''pixel_values'', Pixels 1)], demo_feature 2 [5, 6], [(''pixel_values'', Pixels 3)]]"

section \<open>Notions of the specification\<close>

text \<open>
  The indices of the malformed samples of a batch: those of the features without the key
  \<^verbatim>\<open>input_ids\<close>, in increasing order.
\<close>

definition missing_indices :: "'px feature list \<Rightarrow> nat list" where
  "missing_indices features =
     filter (\<lambda>i. map_of (features ! i) ''input_ids'' = None) [0..<length features]"


text \<open>The events that touch the network from \<^verbatim>\<open>prepare_dataset\<close>.\<close>

fun is_HttpGet :: "event \<Rightarrow> bool" where
  "is_HttpGet (HttpGet url timeout) = True"
| "is_HttpGet _ = False"

section \<open>The result monad\<close>

lemma then_do_Inl [simp]: "then_do (es, Inl e) f = (es, Inl e)"
  by (simp add: then_do_def)

lemma then_do_Inr [simp]: "then_do (es, Inr x) f = (es @ fst (f x), snd (f x))"
  by (simp add: then_do_def split: prod.splits)

lemma then_do_ret [simp]: "then_do (ret x) f = f x"
  by (simp add: ret_def)

lemma then_do_raise [simp]: "then_do (raise e) f = raise e"
  by (simp add: raise_def)

lemma then_do_emit [simp]: "then_do (emit ev) f = (ev # fst (f ()), snd (f ()))"
  by (simp add: emit_def)

lemma then_do_lift_Inl [simp]: "then_do (lift (Inl e)) f = ([], Inl e)"
  by (simp add: lift_def)

lemma then_do_lift_Inr [simp]: "then_do (lift (Inr x)) f = f x"
  by (simp add: lift_def)

lemma fst_ret [simp]: "fst (ret x) = []"
  by (simp add: ret_def)

lemma snd_ret [simp]: "snd (ret x) = Inr x"
  by (simp add: ret_def)

lemma fst_raise [simp]: "fst (raise e) = []"
  by (simp add: raise_def)

lemma snd_raise [simp]: "snd (raise e) = Inl e"
  by (simp add: raise_def)

text \<open>Unfolding sets for the concrete inputs and for the stages of a run.\<close>

lemmas demo_defs = demo_env_def demo_model_args_def demo_data_args_def demo_training_args_def
  demo_get_def demo_raise_for_status_def demo_image_open_def demo_image_str_def demo_rows_def
  demo_dataset_def demo_load_dataset_def demo_train_test_split_def demo_AutoConfig_def
  demo_AutoImageProcessor_def demo_AutoTokenizer_def demo_cache_files_str_def demo_finetune_def
  demo_tokenizer_def demo_tokenize_def demo_image_processor_def demo_from_pretrained_def
  demo_to_tensor_def demo_stack_def demo_collator_def demo_feature_def demo_features_def
  demo_features_pad_token_def demo_features_malformed_def

lemmas stage_defs = preprocess_def load_raw_datasets_def check_columns_def
  load_config_and_processors_def select_samples_def select_split_def vectorize_datasets_def
  vectorize_split_def process_dataset_def prepare_dataset_def encode_def fetch_and_encode_def
  except_fetch_errors_def getitem_def filter_dataset_def not_null_def null_sample_def or_else_def

lemma then_do_eq_InrD:
  assumes "then_do m f = (es, Inr y)"
  shows "\<exists>es1 x es2. m = (es1, Inr x) \<and> f x = (es2, Inr y) \<and> es = es1 @ es2"
proof (cases m)
  case (Pair es1 r)
  show ?thesis
  proof (cases r)
    case (Inl e)
    with Pair assms show ?thesis by simp
  next
    case (Inr x)
    with Pair assms show ?thesis by (cases "f x") auto
  qed
qed

text \<open>\<open>str_in\<close> is the contiguous-sublist relation of the library.\<close>

lemma str_in_iff_sublist: "str_in sub s \<longleftrightarrow> sublist sub s"
  by (induction s) (auto simp: sublist_Cons_right)

section \<open>Model Dispatcher\<close>

text \<open>
  C6. When the \<^verbatim>\<open>architectures\<close> field of the configuration is absent or an empty
  list, \<^verbatim>\<open>load_model\<close> raises the \<^verbatim>\<open>ValueError\<close> \<open>No architecture found in config\<close>
  before any loader is called (no event), so it returns no model. Nothing in \<^verbatim>\<open>main\<close>
  catches it: when preprocessing has finished with such a configuration and
  \<^verbatim>\<open>preprocessing_only\<close> is off, the run ends with this error right after the events of
  preprocessing, without reaching the trainer.
\<close>

theorem load_model_no_architecture:
  assumes "architectures cfg = None \<or> architectures cfg = Some []"
  shows "load_model from_pretrained checkpoint cfg =
           ([], Inl (ValueError (''No architecture found in config for '' @ str_opt checkpoint)))
       \<and> (preprocess env model_args data_args training_args = (es, Inr (config.truncate cfg, vectorized))
            \<and> \<not> preprocessing_only data_args \<longrightarrow>
          main env model_args data_args training_args =
            (es, Inl (ValueError (''No architecture found in config for ''
                  @ str_opt (or_else (model_name_or_path model_args)
                                     (config_name_or_path model_args))))))"
  using assms
  by (auto simp: load_model_def raise_def main_def load_and_train_def config.truncate_def)

theorem load_model_no_architecture_witness:
  "load_model demo_from_pretrained (Some ''microsoft/git-base'') \<lparr>architectures = Some []\<rparr> =
     ([], Inl (ValueError ''No architecture found in config for microsoft/git-base''))
   \<and> snd (main (demo_env \<lparr>architectures = None\<rparr>) demo_model_args
        (demo_data_args (Some ''image'') (Some ''text'') None) (demo_training_args True False)) =
     Inl (ValueError ''No architecture found in config for microsoft/git-base'')"
proof -
  have pre: "preprocess (demo_env \<lparr>architectures = None\<rparr>) demo_model_args
        (demo_data_args (Some ''image'') (Some ''text'') None) (demo_training_args True False) =
      ([LoadDataset (StrAttr (Some ''captions'')) (StrAttr None) (Some ''train''), TrainTestSplit,
        ConfigFromPretrained (Some ''microsoft/git-base''),
        ImageProcessorFromPretrained (Some ''microsoft/git-base''),
        TokenizerFromPretrained (Some ''microsoft/git-base''),
        HttpGet ''http://ok/cat.png'' 1],
       Inr (config.truncate \<lparr>architectures = None\<rparr>,
         [(''train'',
           [\<lparr>pixel_values = Some 107, input_ids = Some [97, 32, 100, 111, 103],
              attention_mask = Some [1, 1, 1, 1, 1]\<rparr>,
            \<lparr>pixel_values = Some 101, input_ids = Some [97, 32, 99, 97, 116],
              attention_mask = Some [1, 1, 1, 1, 1]\<rparr>])]))"
    by (simp add: stage_defs demo_defs config.truncate_def)
  have np: "\<not> preprocessing_only (demo_data_args (Some ''image'') (Some ''text'') None)"
    by (simp add: demo_data_args_def)
  have a: "architectures \<lparr>architectures = None\<rparr> = None \<or> architectures \<lparr>architectures = None\<rparr> = Some []"
    by simp
  have b: "architectures \<lparr>architectures = Some []\<rparr> = None \<or> architectures \<lparr>architectures = Some []\<rparr> = Some []"
    by simp
  show ?thesis
    using load_model_no_architecture [OF b, THEN conjunct1, of demo_from_pretrained
            "Some ''microsoft/git-base''"]
          load_model_no_architecture [OF a, THEN conjunct2, rule_format, OF conjI [OF pre np]]
    by (simp add: demo_model_args_def or_else_def)
qed

text \<open>
  C2 (amended). For every configuration whose architectures list is non-empty and whose
  first name is a non-empty string, \<^verbatim>\<open>load_model\<close> dispatches on that first name by
  substring match, the first entry of the mapping winning: a name containing
  \<open>GitForCausalLM\<close> selects \<^verbatim>\<open>AutoModelForCausalLM\<close>; a name not containing it but
  containing \<open>BlipForConditionalGeneration\<close> or \<open>VisionEncoderDecoderModel\<close> selects
  \<^verbatim>\<open>AutoModelForVision2Seq\<close>; the selected class is the one whose \<^verbatim>\<open>from_pretrained\<close>
  is called with the checkpoint; a name containing none of the three makes the function
  log the warning \<open>Unknown architecture\<close> and return \<^verbatim>\<open>None\<close>.
\<close>

theorem load_model_dispatch:
  assumes "architectures cfg = Some (a # rest)" and "a \<noteq> []"
  shows "(str_in ''GitForCausalLM'' a \<longrightarrow>
            find_model_class model_class_mapping a = Some AutoModelForCausalLM)
       \<and> (\<not> str_in ''GitForCausalLM'' a \<and>
            (str_in ''BlipForConditionalGeneration'' a \<or> str_in ''VisionEncoderDecoderModel'' a) \<longrightarrow>
            find_model_class model_class_mapping a = Some AutoModelForVision2Seq)
       \<and> (\<not> str_in ''GitForCausalLM'' a \<and> \<not> str_in ''BlipForConditionalGeneration'' a
            \<and> \<not> str_in ''VisionEncoderDecoderModel'' a \<longrightarrow>
            load_model from_pretrained checkpoint cfg =
              ([Log WARNING (''Unknown architecture '' @ a @ ''.'')], Inr None))
       \<and> (\<forall>cls. find_model_class model_class_mapping a = Some cls \<longrightarrow>
            load_model from_pretrained checkpoint cfg =
              (case from_pretrained cls checkpoint of
                 Inl e \<Rightarrow> ([ModelFromPretrained cls checkpoint], Inl e)
               | Inr m \<Rightarrow>
                   ([ModelFromPretrained cls checkpoint,
                     Log INFO (''Loaded model with architecture '' @ a @ '' using '' @ class_name cls)],
                    Inr (Some m))))"
  using assms
  by (auto simp: load_model_def model_class_mapping_def lift_def then_do_def ret_def emit_def split: sum.splits)

theorem load_model_dispatch_witness:
  "load_model demo_from_pretrained (Some ''ckpt'') \<lparr>architectures = Some [''GitForCausalLM'']\<rparr> =
     ([ModelFromPretrained AutoModelForCausalLM (Some ''ckpt''),
       Log INFO ''Loaded model with architecture GitForCausalLM using AutoModelForCausalLM''],
      Inr (Some 1))
   \<and> load_model demo_from_pretrained (Some ''ckpt'')
        \<lparr>architectures = Some [''BlipForConditionalGeneration'']\<rparr> =
     ([ModelFromPretrained AutoModelForVision2Seq (Some ''ckpt''),
       Log INFO ''Loaded model with architecture BlipForConditionalGeneration using AutoModelForVision2Seq''],
      Inr (Some 2))
   \<and> load_model demo_from_pretrained (Some ''ckpt'')
        \<lparr>architectures = Some [''VisionEncoderDecoderModel'']\<rparr> =
     ([ModelFromPretrained AutoModelForVision2Seq (Some ''ckpt''),
       Log INFO ''Loaded model with architecture VisionEncoderDecoderModel using AutoModelForVision2Seq''],
      Inr (Some 2))
   \<and> load_model demo_from_pretrained (Some ''ckpt'') \<lparr>architectures = Some [''SomeUnknownArch'']\<rparr> =
     ([Log WARNING ''Unknown architecture SomeUnknownArch.''], Inr None)"
  using load_model_dispatch [of "\<lparr>architectures = Some [''GitForCausalLM'']\<rparr>" "''GitForCausalLM''" "[]"
          demo_from_pretrained "Some ''ckpt''"]
        load_model_dispatch [of "\<lparr>architectures = Some [''BlipForConditionalGeneration'']\<rparr>"
          "''BlipForConditionalGeneration''" "[]" demo_from_pretrained "Some ''ckpt''"]
        load_model_dispatch [of "\<lparr>architectures = Some [''VisionEncoderDecoderModel'']\<rparr>"
          "''VisionEncoderDecoderModel''" "[]" demo_from_pretrained "Some ''ckpt''"]
        load_model_dispatch [of "\<lparr>architectures = Some [''SomeUnknownArch'']\<rparr>"
          "''SomeUnknownArch''" "[]" demo_from_pretrained "Some ''ckpt''"]
  by (simp add: demo_from_pretrained_def model_class_mapping_def)

text \<open>
  C2 as stated fails on the configuration whose architectures list is \<^verbatim>\<open>[""]\<close>: the
  list is non-empty and its first name matches no fragment, yet the guard
  \<^verbatim>\<open>if not architecture\<close> raises the \<^verbatim>\<open>ValueError\<close> instead of the warning and
  \<^verbatim>\<open>None\<close>.
\<close>

theorem load_model_empty_name_counterexample:
  "architectures \<lparr>architectures = Some ['''']\<rparr> \<noteq> None
   \<and> architectures \<lparr>architectures = Some ['''']\<rparr> \<noteq> Some []
   \<and> \<not> str_in ''GitForCausalLM'' ''''
   \<and> \<not> str_in ''BlipForConditionalGeneration'' ''''
   \<and> \<not> str_in ''VisionEncoderDecoderModel'' ''''
   \<and> load_model demo_from_pretrained (Some ''ckpt'') \<lparr>architectures = Some ['''']\<rparr> =
       ([], Inl (ValueError ''No architecture found in config for ckpt''))
   \<and> load_model demo_from_pretrained (Some ''ckpt'') \<lparr>architectures = Some ['''']\<rparr> \<noteq>
       ([Log WARNING ''Unknown architecture .''], Inr None)"
  by (simp add: load_model_def raise_def)

section \<open>Dataset Preparation\<close>

text \<open>
  C3. For a raw sample whose image cell is a URL string: when \<^verbatim>\<open>requests.get\<close> raises
  a \<^verbatim>\<open>RequestException\<close> (a network error), or \<^verbatim>\<open>raise_for_status\<close> raises its
  \<^verbatim>\<open>HTTPError\<close> (a non-success status), or \<^verbatim>\<open>Image.open\<close> raises an
  \<^verbatim>\<open>IOError\<close> (the bytes are no image), \<^verbatim>\<open>prepare_dataset\<close> raises nothing: after
  its one GET it logs exactly one warning, which ends with the URL, and returns the sample
  whose three fields are \<^verbatim>\<open>None\<close>.
\<close>

theorem prepare_dataset_fetch_failure:
  assumes "image_column_name data_args = Some ic" and "map_of sample ic = Some (Text url)"
      and "text_column_name data_args = Some tc" and "map_of sample tc = Some text_cell"
      and "(\<exists>e. requests_get env url (requests_timeout data_args) = Inl e \<and> is_RequestException e)
         \<or> (\<exists>r. requests_get env url (requests_timeout data_args) = Inr r
                \<and> raise_for_status env r = Inl HTTPError)
         \<or> (\<exists>r e. requests_get env url (requests_timeout data_args) = Inr r
                \<and> raise_for_status env r = Inr () \<and> image_open env r = Inl e \<and> is_IOError e)"
  shows "prepare_dataset env data_args image_processor tok sample =
           ([HttpGet url (requests_timeout data_args),
             Log WARNING (''Skipping sample due to error fetching URL '' @ url)],
            Inr \<lparr>pixel_values = None, input_ids = None, attention_mask = None\<rparr>)"
  using assms
  by (auto simp: prepare_dataset_def getitem_def fetch_and_encode_def except_fetch_errors_def
        null_sample_def)

theorem prepare_dataset_fetch_failure_witness:
  "prepare_dataset (demo_env \<lparr>architectures = None\<rparr>) (demo_data_args (Some ''image'') (Some ''text'') None)
     demo_image_processor demo_tokenizer
     [(''image'', Text ''http://down/x.png''), (''text'', Text ''broken'')] =
   ([HttpGet ''http://down/x.png'' 1,
     Log WARNING ''Skipping sample due to error fetching URL http://down/x.png''],
    Inr \<lparr>pixel_values = None, input_ids = None, attention_mask = None\<rparr>)
   \<and> prepare_dataset (demo_env \<lparr>architectures = None\<rparr>) (demo_data_args (Some ''image'') (Some ''text'') None)
     demo_image_processor demo_tokenizer
     [(''image'', Text ''http://ok/missing.png''), (''text'', Text ''gone'')] =
   ([HttpGet ''http://ok/missing.png'' 1,
     Log WARNING ''Skipping sample due to error fetching URL http://ok/missing.png''],
    Inr \<lparr>pixel_values = None, input_ids = None, attention_mask = None\<rparr>)
   \<and> prepare_dataset (demo_env \<lparr>architectures = None\<rparr>) (demo_data_args (Some ''image'') (Some ''text'') None)
     demo_image_processor demo_tokenizer
     [(''image'', Text ''http://ok/page.html''), (''text'', Text ''a page'')] =
   ([HttpGet ''http://ok/page.html'' 1,
     Log WARNING ''Skipping sample due to error fetching URL http://ok/page.html''],
    Inr \<lparr>pixel_values = None, input_ids = None, attention_mask = None\<rparr>)"
  using prepare_dataset_fetch_failure [of "demo_data_args (Some ''image'') (Some ''text'') None"
          "''image''" "[(''image'', Text ''http://down/x.png''), (''text'', Text ''broken'')]"
          "''http://down/x.png''" "''text''" "Text ''broken''" "demo_env \<lparr>architectures = None\<rparr>"
          demo_image_processor demo_tokenizer]
        prepare_dataset_fetch_failure [of "demo_data_args (Some ''image'') (Some ''text'') None"
          "''image''" "[(''image'', Text ''http://ok/missing.png''), (''text'', Text ''gone'')]"
          "''http://ok/missing.png''" "''text''" "Text ''gone''" "demo_env \<lparr>architectures = None\<rparr>"
          demo_image_processor demo_tokenizer]
        prepare_dataset_fetch_failure [of "demo_data_args (Some ''image'') (Some ''text'') None"
          "''image''" "[(''image'', Text ''http://ok/page.html''), (''text'', Text ''a page'')]"
          "''http://ok/page.html''" "''text''" "Text ''a page''" "demo_env \<lparr>architectures = None\<rparr>"
          demo_image_processor demo_tokenizer]
  by (simp add: demo_defs)

text \<open>
  C7. For a raw sample whose image cell is a decoded image, \<^verbatim>\<open>prepare_dataset\<close> is
  the direct encoding of that image and of the text: it produces no event at all, so no
  HTTP GET, and its result does not depend on what \<^verbatim>\<open>requests.get\<close> would answer.
\<close>

theorem prepare_dataset_in_memory:
  assumes "image_column_name data_args = Some ic" and "map_of sample ic = Some (PILImage img)"
      and "text_column_name data_args = Some tc" and "map_of sample tc = Some text_cell"
  shows "prepare_dataset env data_args image_processor tok sample =
           ([], case image_processor img of
                  Inl e \<Rightarrow> Inl e
                | Inr image_input \<Rightarrow>
                    (case tokenize tok (str_cell (image_str env) text_cell) of
                       Inl e \<Rightarrow> Inl e
                     | Inr text_input \<Rightarrow>
                         Inr \<lparr>pixel_values = Some image_input,
                              input_ids = Some (fst text_input),
                              attention_mask = Some (snd text_input)\<rparr>))
       \<and> (\<forall>ev \<in> set (fst (prepare_dataset env data_args image_processor tok sample)). \<not> is_HttpGet ev)
       \<and> (\<forall>get. prepare_dataset (env\<lparr>requests_get := get\<rparr>) data_args image_processor tok sample =
                 prepare_dataset env data_args image_processor tok sample)"
  using assms
  by (auto simp: prepare_dataset_def getitem_def encode_def lift_def then_do_def ret_def
           split: sum.splits)

theorem prepare_dataset_in_memory_witness:
  "prepare_dataset (demo_env \<lparr>architectures = None\<rparr>) (demo_data_args (Some ''image'') (Some ''text'') None)
     demo_image_processor demo_tokenizer [(''image'', PILImage 7), (''text'', Text ''a dog'')] =
   ([], Inr \<lparr>pixel_values = Some 107, input_ids = Some [97, 32, 100, 111, 103],
             attention_mask = Some [1, 1, 1, 1, 1]\<rparr>)"
  using prepare_dataset_in_memory [of "demo_data_args (Some ''image'') (Some ''text'') None"
          "''image''" "[(''image'', PILImage 7), (''text'', Text ''a dog'')]" 7 "''text''"
          "Text ''a dog''" "demo_env \<lparr>architectures = None\<rparr>" demo_image_processor demo_tokenizer]
  by (simp add: demo_defs)

text \<open>The filter keeps only samples without a null field, and filtering twice is filtering once.\<close>

lemma filter_dataset_not_null: "s \<in> set (filter_dataset ds) \<Longrightarrow> not_null s"
  by (simp add: filter_dataset_def)

lemma filter_dataset_idem: "filter_dataset (filter_dataset ds) = filter_dataset ds"
  by (simp add: filter_dataset_def)

text \<open>
  C4. Every dataset that \<^verbatim>\<open>process_dataset\<close> (map, then filter) returns contains no
  sample with a null \<^verbatim>\<open>pixel_values\<close>, \<^verbatim>\<open>input_ids\<close> or \<^verbatim>\<open>attention_mask\<close>, and
  applying the same filter to it again leaves it unchanged.
\<close>

theorem process_dataset_no_null:
  assumes "process_dataset env data_args image_processor tok dataset = (es, Inr out)"
  shows "(\<forall>s \<in> set out. pixel_values s \<noteq> None \<and> input_ids s \<noteq> None \<and> attention_mask s \<noteq> None)
       \<and> filter_dataset out = out"
proof -
  from assms obtain mapped es2 where
    "ret (filter_dataset mapped) = (es2, Inr out)"
    unfolding process_dataset_def by (blast dest: then_do_eq_InrD)
  then have out: "out = filter_dataset mapped"
    by (simp add: ret_def)
  show ?thesis
    unfolding out using filter_dataset_not_null [of _ mapped]
    by (auto simp: filter_dataset_idem not_null_def)
qed

theorem process_dataset_no_null_witness:
  "process_dataset (demo_env \<lparr>architectures = None\<rparr>) (demo_data_args (Some ''image'') (Some ''text'') None)
     demo_image_processor demo_tokenizer demo_dataset =
   ([HttpGet ''http://ok/cat.png'' 1, HttpGet ''http://down/x.png'' 1,
     Log WARNING ''Skipping sample due to error fetching URL http://down/x.png''],
    Inr [\<lparr>pixel_values = Some 107, input_ids = Some [97, 32, 100, 111, 103],
          attention_mask = Some [1, 1, 1, 1, 1]\<rparr>,
         \<lparr>pixel_values = Some 101, input_ids = Some [97, 32, 99, 97, 116],
          attention_mask = Some [1, 1, 1, 1, 1]\<rparr>])
   \<and> filter_dataset
       [\<lparr>pixel_values = Some (107::nat), input_ids = Some [97, 32, 100, 111, 103],
          attention_mask = Some [1, 1, 1, 1, 1]\<rparr>,
        \<lparr>pixel_values = Some 101, input_ids = Some [97, 32, 99, 97, 116],
          attention_mask = Some [1, 1, 1, 1, 1]\<rparr>] =
       [\<lparr>pixel_values = Some 107, input_ids = Some [97, 32, 100, 111, 103],
          attention_mask = Some [1, 1, 1, 1, 1]\<rparr>,
        \<lparr>pixel_values = Some 101, input_ids = Some [97, 32, 99, 97, 116],
          attention_mask = Some [1, 1, 1, 1, 1]\<rparr>]"
proof -
  have run: "process_dataset (demo_env \<lparr>architectures = None\<rparr>)
       (demo_data_args (Some ''image'') (Some ''text'') None)
       demo_image_processor demo_tokenizer demo_dataset =
     ([HttpGet ''http://ok/cat.png'' 1, HttpGet ''http://down/x.png'' 1,
       Log WARNING ''Skipping sample due to error fetching URL http://down/x.png''],
      Inr [\<lparr>pixel_values = Some 107, input_ids = Some [97, 32, 100, 111, 103],
            attention_mask = Some [1, 1, 1, 1, 1]\<rparr>,
           \<lparr>pixel_values = Some 101, input_ids = Some [97, 32, 99, 97, 116],
            attention_mask = Some [1, 1, 1, 1, 1]\<rparr>])"
    by (simp add: stage_defs demo_defs)
  from process_dataset_no_null [OF run] run show ?thesis by simp
qed

section \<open>Batch Collator\<close>

text \<open>
  The validation loop logs one error for each index of \<open>missing_indices\<close>, in order, and
  counts them.
\<close>

lemma missing_indices_Nil [simp]: "missing_indices [] = []"
  by (simp add: missing_indices_def)

lemma missing_indices_Cons:
  "missing_indices (f # fs) =
     (if map_of f ''input_ids'' = None then [0] else []) @ map Suc (missing_indices fs)"
proof -
  have "[0..<length (f # fs)] = 0 # map Suc [0..<length fs]"
    by (simp add: upt_conv_Cons map_Suc_upt del: upt_Suc)
  then show ?thesis
    by (simp add: missing_indices_def filter_map comp_def del: upt_Suc)
qed

lemma count_missing_eq:
  "count_missing i e fs =
     (map (\<lambda>j. Log ERROR (''Missing input_ids in feature '' @ str_nat (i + j) @ '': ''
                           @ str_keys (fs ! j))) (missing_indices fs),
      Inr (e + length (missing_indices fs)))"
proof (induction fs arbitrary: i e)
  case Nil
  show ?case by (simp add: ret_def)
next
  case (Cons f fs)
  show ?case
    by (simp add: Cons.IH missing_indices_Cons comp_def del: str_nat.simps)
qed

lemma missing_indices_nonempty:
  "missing_indices fs \<noteq> [] \<longleftrightarrow> (\<exists>f \<in> set fs. map_of f ''input_ids'' = None)"
proof -
  have "(\<exists>f \<in> set fs. map_of f ''input_ids'' = None)
          \<longleftrightarrow> (\<exists>i<length fs. map_of (fs ! i) ''input_ids'' = None)"
    by (metis in_set_conv_nth)
  then show ?thesis
    by (auto simp: missing_indices_def filter_empty_conv)
qed

text \<open>
  C5. When at least one feature of the batch lacks the key \<^verbatim>\<open>input_ids\<close>, the collator
  returns no batch: it raises the \<^verbatim>\<open>ValueError\<close> whose message carries the number of
  malformed features (and the batch size), after one error log line for each malformed
  feature, carrying its index and its keys. The count is at least one and no feature is
  skipped: the call ends with the exception for the whole batch.
\<close>

theorem collator_missing_input_ids:
  assumes "\<exists>f \<in> set features. map_of f ''input_ids'' = None"
  shows "DataCollatorWithPadding_call to_tensor stack self features =
           (map (\<lambda>i. Log ERROR (''Missing input_ids in feature '' @ str_nat i @ '': ''
                                 @ str_keys (features ! i))) (missing_indices features),
            Inl (ValueError (''Found '' @ str_nat (length (missing_indices features)) @ ''/''
                             @ str_nat (length features) @ '' features without input_ids.'')))
       \<and> missing_indices features \<noteq> []"
proof -
  from assms have ne: "missing_indices features \<noteq> []"
    by (simp add: missing_indices_nonempty)
  then show ?thesis
    by (simp add: DataCollatorWithPadding_call_def count_missing_eq raise_def del: str_nat.simps)
qed

lemma str_nat_digits:
  "str_nat 0 = ''0''" "str_nat 1 = ''1''" "str_nat 2 = ''2''" "str_nat 3 = ''3''"
  "str_nat (Suc 0) = ''1''" "str_nat (Suc (Suc 0)) = ''2''"
  by (simp_all add: digit_char_def)

theorem collator_missing_input_ids_witness:
  "DataCollatorWithPadding_call demo_to_tensor demo_stack demo_collator demo_features_malformed =
     ([Log ERROR (''Missing input_ids in feature 0: dict_keys(['' @ [CHR 0x27] @ ''pixel_values''
                  @ [CHR 0x27] @ ''])''),
       Log ERROR (''Missing input_ids in feature 2: dict_keys(['' @ [CHR 0x27] @ ''pixel_values''
                  @ [CHR 0x27] @ ''])'')],
      Inl (ValueError ''Found 2/3 features without input_ids.''))"
proof -
  have h: "\<exists>f \<in> set demo_features_malformed. map_of f ''input_ids'' = None"
    by (simp add: demo_features_malformed_def demo_feature_def)
  have m: "missing_indices demo_features_malformed = [0, 2]"
    by (simp add: missing_indices_def demo_features_malformed_def demo_feature_def upt_conv_Cons)
  have n: "length demo_features_malformed = 3"
    by (simp add: demo_features_malformed_def)
  have k: "str_keys (demo_features_malformed ! 0) = ''dict_keys(['' @ [CHR 0x27] @ ''pixel_values'' @ [CHR 0x27] @ ''])''"
    "str_keys (demo_features_malformed ! 2) = ''dict_keys(['' @ [CHR 0x27] @ ''pixel_values'' @ [CHR 0x27] @ ''])''"
    by (simp_all add: str_keys_def demo_features_malformed_def)
  note r = collator_missing_input_ids [OF h, of demo_to_tensor demo_stack demo_collator,
             THEN conjunct1, unfolded m n]
  show ?thesis
    unfolding r by (simp add: str_nat_digits k del: str_nat.simps)
qed

text \<open>
  The collator on well-formed features: every feature carries a token-id list and a pixel
  array that the tensor operations accept, and the tokenizer has a pad token.
\<close>

lemma map_rows_all2:
  assumes "list_all2 (\<lambda>x y. f x = ([], Inr y)) xs ys"
  shows "map_rows f xs = ([], Inr ys)"
  using assms by (induction rule: list_all2_induct) (simp_all add: ret_def)

lemma missing_indices_none:
  assumes "list_all2 (\<lambda>f xs. map_of f ''input_ids'' = Some (IntList xs)) features ids"
  shows "missing_indices features = []"
proof -
  have "\<forall>f \<in> set features. map_of f ''input_ids'' \<noteq> None"
    using assms by (auto simp: list_all2_conv_all_nth in_set_conv_nth)
  then show ?thesis
    using missing_indices_nonempty [of features] by blast
qed

lemma those_int_lists: "those (map (int_list_of \<circ> IntList) ids) = Some ids"
  by (induction ids) simp_all

lemma length_le_longest: "xs \<in> set xss \<Longrightarrow> length xs \<le> longest xss"
  by (induction xss) (auto simp: longest_def)

lemma longest_3_5_2:
  assumes "map length ids = [3, 5, 2]"
  shows "longest ids = 5"
proof -
  from assms obtain a b c where "ids = [a, b, c]" "length a = 3" "length b = 5" "length c = 2"
    by (auto simp: map_eq_Cons_conv)
  then show ?thesis by (simp add: longest_def)
qed

lemma collator_returns:
  assumes "pad_token_id (collator_tokenizer self) = Some p"
      and "list_all2 (\<lambda>f xs. map_of f ''input_ids'' = Some (IntList xs)) features ids"
      and "list_all2 (\<lambda>f t. \<exists>v. map_of f ''pixel_values'' = Some v \<and> to_tensor v = Inr t) features ts"
      and "stack ts = Inr pixels"
  shows "DataCollatorWithPadding_call to_tensor stack self features =
           ([], Inr \<lparr>batch_input_ids = map (pad_right (longest ids) p) ids,
                     batch_attention_mask =
                       (if forward_attention_mask self then Some (map (mask_right (longest ids)) ids)
                        else None),
                     batch_pixel_values = pixels,
                     batch_labels = mask_labels (Some p) (map (pad_right (longest ids) p) ids)\<rparr>)"
proof -
  have c: "count_missing 0 0 features = ([], Inr 0)"
    by (simp add: count_missing_eq missing_indices_none [OF assms(2)] del: str_nat.simps)
  have px: "map_rows (\<lambda>f. then_do (lift (getitem f (Some ''pixel_values''))) (\<lambda>v. lift (to_tensor v)))
              features = ([], Inr ts)"
    by (rule map_rows_all2, rule list_all2_mono [OF assms(3)]) (auto simp: getitem_def lift_def)
  have ids: "map_rows (\<lambda>f. lift (getitem f (Some ''input_ids''))) features = ([], Inr (map IntList ids))"
    by (rule map_rows_all2, simp add: list_all2_map2, rule list_all2_mono [OF assms(2)])
       (auto simp: getitem_def lift_def)
  show ?thesis
    by (simp add: DataCollatorWithPadding_call_def c px ids assms(1,4) tokenizer_pad_def
          those_int_lists ret_def del: str_nat.simps)
qed

text \<open>
  C1 (amended). For every batch of encoded samples the collator accepts, it returns a batch
  whose \<^verbatim>\<open>input_ids\<close>, \<^verbatim>\<open>labels\<close> and \<^verbatim>\<open>attention_mask\<close> rows all have the width of
  the longest token sequence. At every padded index \<^verbatim>\<open>input_ids\<close> is the pad token id and
  \<^verbatim>\<open>labels\<close> is -100. At every real-token index \<^verbatim>\<open>input_ids\<close> is the original token id,
  and \<^verbatim>\<open>labels\<close> is the original token id unless that id equals the pad token id, in
  which case it is -100 as well. For token-sequence lengths [3, 5, 2] the width is 5.
\<close>

theorem collator_labels:
  assumes "pad_token_id (collator_tokenizer self) = Some p"
      and "list_all2 (\<lambda>f xs. map_of f ''input_ids'' = Some (IntList xs)) features ids"
      and "list_all2 (\<lambda>f t. \<exists>v. map_of f ''pixel_values'' = Some v \<and> to_tensor v = Inr t) features ts"
      and "stack ts = Inr pixels"
  shows "\<exists>b. DataCollatorWithPadding_call to_tensor stack self features = ([], Inr b)
          \<and> batch_pixel_values b = pixels
          \<and> length (batch_input_ids b) = length ids
          \<and> length (batch_labels b) = length ids
          \<and> (\<forall>i<length ids.
                length (batch_input_ids b ! i) = longest ids
              \<and> length (batch_labels b ! i) = longest ids
              \<and> (\<forall>j<longest ids.
                    (j < length (ids ! i) \<longrightarrow>
                       batch_input_ids b ! i ! j = ids ! i ! j
                     \<and> batch_labels b ! i ! j = (if ids ! i ! j = p then - 100 else ids ! i ! j))
                  \<and> (length (ids ! i) \<le> j \<longrightarrow>
                       batch_input_ids b ! i ! j = p \<and> batch_labels b ! i ! j = - 100)))
          \<and> (forward_attention_mask self \<longrightarrow>
               (\<exists>m. batch_attention_mask b = Some m \<and> length m = length ids
                  \<and> (\<forall>i<length ids. length (m ! i) = longest ids
                        \<and> (\<forall>j<longest ids. m ! i ! j = (if j < length (ids ! i) then 1 else 0)))))
          \<and> (map length ids = [3, 5, 2] \<longrightarrow> longest ids = 5)"
proof -
  have le: "length (ids ! i) \<le> longest ids" if "i < length ids" for i
    using that by (simp add: length_le_longest)
  show ?thesis
    unfolding collator_returns [where to_tensor = to_tensor and stack = stack, OF assms]
    by (auto simp: mask_labels_def pad_right_def mask_right_def nth_append le longest_3_5_2)
qed

theorem collator_labels_witness:
  "DataCollatorWithPadding_call demo_to_tensor demo_stack demo_collator demo_features =
     ([], Inr \<lparr>batch_input_ids = [[11, 12, 13, 0, 0], [21, 22, 23, 24, 25], [31, 32, 0, 0, 0]],
               batch_attention_mask = Some [[1, 1, 1, 0, 0], [1, 1, 1, 1, 1], [1, 1, 0, 0, 0]],
               batch_pixel_values = [1, 2, 3],
               batch_labels = [[11, 12, 13, - 100, - 100], [21, 22, 23, 24, 25],
                               [31, 32, - 100, - 100, - 100]]\<rparr>)"
proof -
  have p: "pad_token_id (collator_tokenizer demo_collator) = Some 0"
    by (simp add: demo_collator_def demo_tokenizer_def)
  have fam: "forward_attention_mask demo_collator"
    by (simp add: demo_collator_def)
  have i: "list_all2 (\<lambda>f xs. map_of f ''input_ids'' = Some (IntList xs)) demo_features
             [[11, 12, 13], [21, 22, 23, 24, 25], [31, 32]]"
    by (simp add: demo_features_def demo_feature_def)
  have t: "list_all2 (\<lambda>f t. \<exists>v. map_of f ''pixel_values'' = Some v \<and> demo_to_tensor v = Inr t)
             demo_features [[1], [2], [3]]"
    by (simp add: demo_features_def demo_feature_def demo_to_tensor_def)
  have s: "demo_stack [[1], [2], [3]] = Inr [1, 2, 3]"
    by (simp add: demo_stack_def)
  from collator_labels [where to_tensor = demo_to_tensor and stack = demo_stack, OF p i t s] obtain b where
    "DataCollatorWithPadding_call demo_to_tensor demo_stack demo_collator demo_features = ([], Inr b)"
    by blast
  moreover have "snd (DataCollatorWithPadding_call demo_to_tensor demo_stack demo_collator demo_features)
     = Inr \<lparr>batch_input_ids = [[11, 12, 13, 0, 0], [21, 22, 23, 24, 25], [31, 32, 0, 0, 0]],
               batch_attention_mask = Some [[1, 1, 1, 0, 0], [1, 1, 1, 1, 1], [1, 1, 0, 0, 0]],
               batch_pixel_values = [1, 2, 3],
               batch_labels = [[11, 12, 13, - 100, - 100], [21, 22, 23, 24, 25],
                               [31, 32, - 100, - 100, - 100]]\<rparr>"
    by (simp add: collator_returns [where to_tensor = demo_to_tensor and stack = demo_stack, OF p i t s]
          fam longest_def pad_right_def mask_right_def mask_labels_def)
  ultimately show ?thesis by simp
qed

text \<open>
  C1 as stated fails when a real token equals the pad token id: in the batch of the
  sequences [7, 0, 9] and [5] with pad token id 0, index 1 of the first row is a real
  token (attention mask 1), yet its label is -100 and not the original id 0.
\<close>

theorem collator_labels_pad_token_counterexample:
  "DataCollatorWithPadding_call demo_to_tensor demo_stack demo_collator demo_features_pad_token =
     ([], Inr \<lparr>batch_input_ids = [[7, 0, 9], [5, 0, 0]],
               batch_attention_mask = Some [[1, 1, 1], [1, 0, 0]],
               batch_pixel_values = [1, 2],
               batch_labels = [[7, - 100, 9], [5, - 100, - 100]]\<rparr>)
   \<and> map_of (demo_features_pad_token ! 0) ''input_ids'' = Some (IntList [7, 0, 9])
   \<and> [[7, - 100, 9], [5, - 100, - 100]] ! 0 ! 1 \<noteq> [7, 0, 9 :: int] ! 1"
proof -
  have p: "pad_token_id (collator_tokenizer demo_collator) = Some 0"
    by (simp add: demo_collator_def demo_tokenizer_def)
  have fam: "forward_attention_mask demo_collator"
    by (simp add: demo_collator_def)
  have i: "list_all2 (\<lambda>f xs. map_of f ''input_ids'' = Some (IntList xs)) demo_features_pad_token
             [[7, 0, 9], [5]]"
    by (simp add: demo_features_pad_token_def demo_feature_def)
  have t: "list_all2 (\<lambda>f t. \<exists>v. map_of f ''pixel_values'' = Some v \<and> demo_to_tensor v = Inr t)
             demo_features_pad_token [[1], [2]]"
    by (simp add: demo_features_pad_token_def demo_feature_def demo_to_tensor_def)
  have s: "demo_stack [[1], [2]] = Inr [1, 2]"
    by (simp add: demo_stack_def)
  have "DataCollatorWithPadding_call demo_to_tensor demo_stack demo_collator demo_features_pad_token =
     ([], Inr \<lparr>batch_input_ids = [[7, 0, 9], [5, 0, 0]],
               batch_attention_mask = Some [[1, 1, 1], [1, 0, 0]],
               batch_pixel_values = [1, 2],
               batch_labels = [[7, - 100, 9], [5, - 100, - 100]]\<rparr>)"
    by (simp add: collator_returns [where to_tensor = demo_to_tensor and stack = demo_stack, OF p i t s]
          fam longest_def pad_right_def mask_right_def mask_labels_def)
  moreover have "map_of (demo_features_pad_token ! 0) ''input_ids'' = Some (IntList [7, 0, 9])"
    by (simp add: demo_features_pad_token_def demo_feature_def)
  ultimately show ?thesis by simp
qed

section \<open>The run\<close>

text \<open>Step 3 only loads and splits datasets: none of its events loads a model or a processor.\<close>

lemma then_do_events:
  assumes "\<forall>ev \<in> set (fst m). P ev" and "\<And>x. \<forall>ev \<in> set (fst (f x)). P ev"
  shows "\<forall>ev \<in> set (fst (then_do m f)). P ev"
proof (cases m)
  case (Pair es r)
  with assms show ?thesis by (cases r) auto
qed

lemma fst_lift [simp]: "fst (lift r) = []"
  by (simp add: lift_def)

lemma fst_emit [simp]: "fst (emit ev) = [ev]"
  by (simp add: emit_def)






text \<open>
  C9. The names \<^verbatim>\<open>dataset_name_or_path\<close> and \<^verbatim>\<open>dataset_subset_name\<close> are not
  attributes of \<^verbatim>\<open>DataTrainingArguments\<close> (the declared ones are \<^verbatim>\<open>dataset_name\<close> and
  \<^verbatim>\<open>dataset_config_name\<close>), so reading either raises \<^verbatim>\<open>AttributeError\<close>. Hence every
  run that reaches the evaluation-split branch (\<^verbatim>\<open>do_eval\<close> set and
  \<^verbatim>\<open>eval_split_name\<close> not \<^verbatim>\<open>None\<close>, the training split loaded if it was requested) ends
  there with the \<^verbatim>\<open>AttributeError\<close> of the first read, before any evaluation split is
  loaded.
\<close>

theorem eval_branch_attribute_error:
  "''dataset_name_or_path'' \<notin> set (map fst (data_args_attributes data_args))
   \<and> ''dataset_subset_name'' \<notin> set (map fst (data_args_attributes data_args))
   \<and> ''dataset_name'' \<in> set (map fst (data_args_attributes data_args))
   \<and> ''dataset_config_name'' \<in> set (map fst (data_args_attributes data_args))
   \<and> getattr_data_args data_args ''dataset_name_or_path'' = Inl (AttributeError ''dataset_name_or_path'')
   \<and> getattr_data_args data_args ''dataset_subset_name'' = Inl (AttributeError ''dataset_subset_name'')
   \<and> (do_eval training_args \<and> eval_split_name data_args \<noteq> None \<and> \<not> do_train training_args \<longrightarrow>
        main env model_args data_args training_args = ([], Inl (AttributeError ''dataset_name_or_path'')))
   \<and> (do_eval training_args \<and> eval_split_name data_args \<noteq> None \<and> do_train training_args
        \<and> load_dataset env (StrAttr (dataset_name data_args)) (StrAttr (dataset_config_name data_args))
             (train_split_name data_args) (cache_dir model_args) = Inr train \<longrightarrow>
        main env model_args data_args training_args =
          ([LoadDataset (StrAttr (dataset_name data_args)) (StrAttr (dataset_config_name data_args))
              (train_split_name data_args)],
           Inl (AttributeError ''dataset_name_or_path'')))"
  by (simp add: data_args_attributes_def getattr_data_args_def main_def preprocess_def
        load_raw_datasets_def)

theorem eval_branch_attribute_error_witness:
  "main (demo_env \<lparr>architectures = Some [''GitForCausalLM'']\<rparr>) demo_model_args
     (demo_data_args (Some ''image'') (Some ''text'') (Some ''validation'')) (demo_training_args True True) =
   ([LoadDataset (StrAttr (Some ''captions'')) (StrAttr None) (Some ''train'')],
    Inl (AttributeError ''dataset_name_or_path''))
   \<and> main (demo_env \<lparr>architectures = Some [''GitForCausalLM'']\<rparr>) demo_model_args
     (demo_data_args (Some ''image'') (Some ''text'') (Some ''validation'')) (demo_training_args False True) =
   ([], Inl (AttributeError ''dataset_name_or_path''))"
  using eval_branch_attribute_error [of "demo_data_args (Some ''image'') (Some ''text'') (Some ''validation'')"
          "demo_training_args True True" "demo_env \<lparr>architectures = Some [''GitForCausalLM'']\<rparr>"
          demo_model_args demo_dataset]
        eval_branch_attribute_error [of "demo_data_args (Some ''image'') (Some ''text'') (Some ''validation'')"
          "demo_training_args False True" "demo_env \<lparr>architectures = Some [''GitForCausalLM'']\<rparr>"
          demo_model_args demo_dataset]
  by (simp add: demo_data_args_def demo_training_args_def demo_env_def demo_load_dataset_def
        demo_model_args_def)

text \<open>
  C10 (amended). In every run that has loaded its training split (\<^verbatim>\<open>do_train\<close> set, the
  load succeeded) and in which \<^verbatim>\<open>eval_split_name\<close> is \<^verbatim>\<open>None\<close> (whatever
  \<^verbatim>\<open>do_eval\<close> is), or is the empty string while \<^verbatim>\<open>do_eval\<close> is off, step 3 loads no
  other split: it passes the loaded training dataset to
  \<^verbatim>\<open>train_test_split(test_size=0.15)\<close> and, when that call returns, the datasets of the run
  are its \<^verbatim>\<open>train\<close> part as \<^verbatim>\<open>train\<close> and its \<^verbatim>\<open>test\<close> part as \<^verbatim>\<open>validation\<close>.
\<close>

theorem split_when_eval_split_unset:
  assumes "do_train training_args"
      and "load_dataset env (StrAttr (dataset_name data_args)) (StrAttr (dataset_config_name data_args))
             (train_split_name data_args) (cache_dir model_args) = Inr train"
      and "eval_split_name data_args = None
           \<or> (eval_split_name data_args = Some [] \<and> \<not> do_eval training_args)"
  shows "load_raw_datasets env model_args data_args training_args =
           ([LoadDataset (StrAttr (dataset_name data_args)) (StrAttr (dataset_config_name data_args))
               (train_split_name data_args), TrainTestSplit],
            case train_test_split env train (15 / 100) of
              Inl e \<Rightarrow> Inl e
            | Inr new_dataset \<Rightarrow>
                Inr [(''train'', fst new_dataset), (''validation'', snd new_dataset)])"
proof (cases "train_test_split env train (15 / 100)")
  case (Inl e)
  with assms show ?thesis
    by (auto simp: load_raw_datasets_def getitem_def)
next
  case (Inr new_dataset)
  with assms show ?thesis
    by (auto simp: load_raw_datasets_def getitem_def)
qed

theorem split_when_eval_split_unset_witness:
  "load_raw_datasets (demo_env \<lparr>architectures = None\<rparr>) demo_model_args
     (demo_data_args (Some ''image'') (Some ''text'') None) (demo_training_args True True) =
   ([LoadDataset (StrAttr (Some ''captions'')) (StrAttr None) (Some ''train''), TrainTestSplit],
    Inr [(''train'', \<lparr>column_names = [''image'', ''text''], rows = take 2 demo_rows\<rparr>),
         (''validation'', \<lparr>column_names = [''image'', ''text''], rows = drop 2 demo_rows\<rparr>)])
   \<and> load_raw_datasets (demo_env \<lparr>architectures = None\<rparr>) demo_model_args
     (demo_data_args (Some ''image'') (Some ''text'') (Some '''')) (demo_training_args True False) =
   ([LoadDataset (StrAttr (Some ''captions'')) (StrAttr None) (Some ''train''), TrainTestSplit],
    Inr [(''train'', \<lparr>column_names = [''image'', ''text''], rows = take 2 demo_rows\<rparr>),
         (''validation'', \<lparr>column_names = [''image'', ''text''], rows = drop 2 demo_rows\<rparr>)])"
  using split_when_eval_split_unset [of "demo_training_args True True" "demo_env \<lparr>architectures = None\<rparr>"
          "demo_data_args (Some ''image'') (Some ''text'') None" demo_model_args demo_dataset]
        split_when_eval_split_unset [of "demo_training_args True False" "demo_env \<lparr>architectures = None\<rparr>"
          "demo_data_args (Some ''image'') (Some ''text'') (Some '''')" demo_model_args demo_dataset]
  by (simp add: demo_data_args_def demo_training_args_def demo_env_def demo_load_dataset_def
        demo_model_args_def demo_train_test_split_def demo_dataset_def)

text \<open>
  C10 as stated fails for the empty string with evaluation requested: \<^verbatim>\<open>"" is not None\<close>
  holds, so the run takes the evaluation-split branch and ends with its
  \<^verbatim>\<open>AttributeError\<close>; the training dataset is never partitioned.
\<close>

theorem split_empty_eval_split_counterexample:
  "eval_split_name (demo_data_args (Some ''image'') (Some ''text'') (Some '''')) = Some ''''
   \<and> load_raw_datasets (demo_env \<lparr>architectures = None\<rparr>) demo_model_args
       (demo_data_args (Some ''image'') (Some ''text'') (Some '''')) (demo_training_args True True) =
     ([LoadDataset (StrAttr (Some ''captions'')) (StrAttr None) (Some ''train'')],
      Inl (AttributeError ''dataset_name_or_path''))"
  by (simp add: load_raw_datasets_def getattr_data_args_def data_args_attributes_def
        demo_data_args_def demo_training_args_def demo_env_def demo_load_dataset_def
        demo_model_args_def)

end
